theory Spec2Isabelle
  imports Main
begin

section \<open>The embedding server (docker/embedding-server.py)\<close>

text \<open>
  The program is a Flask application with two routes, \<^verbatim>\<open>POST /embed\<close> and
  \<^verbatim>\<open>GET /health\<close>, around one SentenceTransformer object that is loaded when the
  module is imported. The handlers are embedded as functions on explicit values:
  the value \<^verbatim>\<open>request.get_json()\<close> yields, the module-level variables
  \<^verbatim>\<open>model_name\<close> and \<^verbatim>\<open>model\<close>, and the response that is returned. Flask,
  sentence-transformers and numpy are not part of the program: what the program
  calls of them is a parameter (the library record below) or is written out
  from their documented behaviour (indexing and iterating an array).
\<close>

subsection \<open>Values\<close>

text \<open>
  What \<^verbatim>\<open>json.loads\<close> produces, and what \<^verbatim>\<open>jsonify\<close> serialises: \<^verbatim>\<open>None\<close>,
  \<^verbatim>\<open>bool\<close>, \<^verbatim>\<open>int\<close> (unbounded), \<^verbatim>\<open>float\<close>, \<^verbatim>\<open>str\<close>, \<^verbatim>\<open>list\<close>, \<^verbatim>\<open>dict\<close>
  (keys in insertion order). Floats are only carried around by the program, never
  computed with, so their type is a parameter \<open>'f\<close>; the one thing the program
  asks of a float is its truth value, which is \<open>x \<noteq> 0\<close>.
\<close>

datatype 'f json =
    JNull
  | JBool bool
  | JInt int
  | JFloat 'f
  | JStr string
  | JList "'f json list"
  | JDict "(string \<times> 'f json) list"

text \<open>
  An instance of \<^verbatim>\<open>Exception\<close>; \<open>str\<close> is what \<^verbatim>\<open>str(e)\<close> returns. The texts of
  the interpreter's own TypeErrors are those of CPython 3.8 to 3.10, the texts of
  numpy's errors those of numpy 1.x.
\<close>

datatype exception = Exception (str: string)

text \<open>
  A numpy array: a 0-dimensional value (also what indexing a 1-dimensional array
  gives), or a sequence of arrays along the first axis.
\<close>

datatype 'f ndarray = Scalar 'f | Array "'f ndarray list"

record 'f response =
  status :: nat
  body :: "'f json"

text \<open>
  What the program uses of sentence-transformers: the constructor
  \<^verbatim>\<open>SentenceTransformer(name)\<close>, which may raise, and the method
  \<^verbatim>\<open>model.encode(texts)\<close>, which may raise and, being a method of a mutable
  object, returns the object as it leaves it.
\<close>

record ('f, 'm) library =
  SentenceTransformer :: "string \<Rightarrow> exception + 'm"
  encode :: "'m \<Rightarrow> 'f json \<Rightarrow> (exception + 'f ndarray) \<times> 'm"

text \<open>The module-level variables that live as long as the process.\<close>

record 'm server_state =
  model_name :: string
  model :: 'm

text \<open>
  A request to one of the two routes. For \<^verbatim>\<open>POST /embed\<close> the request is what
  \<^verbatim>\<open>request.get_json()\<close> does with it: it raises (werkzeug's BadRequest on a
  body that does not parse, UnsupportedMediaType on a content type that is not
  JSON) or returns the parsed value (\<open>JNull\<close> is \<^verbatim>\<open>None\<close>).
\<close>

datatype 'f request = PostEmbed "exception + 'f json" | GetHealth

subsection \<open>Python's operations on these values\<close>

fun type_name :: "'f json \<Rightarrow> string" where
  "type_name JNull = ''NoneType''"
| "type_name (JBool b) = ''bool''"
| "type_name (JInt n) = ''int''"
| "type_name (JFloat x) = ''float''"
| "type_name (JStr s) = ''str''"
| "type_name (JList xs) = ''list''"
| "type_name (JDict kvs) = ''dict''"

text \<open>\<^verbatim>\<open>bool(data)\<close>, as \<^verbatim>\<open>not data\<close> evaluates it.\<close>

fun truthy :: "('f::zero) json \<Rightarrow> bool" where
  "truthy JNull = False"
| "truthy (JBool b) = b"
| "truthy (JInt n) = (n \<noteq> 0)"
| "truthy (JFloat x) = (x \<noteq> 0)"
| "truthy (JStr s) = (s \<noteq> [])"
| "truthy (JList xs) = (xs \<noteq> [])"
| "truthy (JDict kvs) = (kvs \<noteq> [])"

text \<open>\<^verbatim>\<open>needle in hay\<close> on two strings: \<open>needle\<close> occurs as a contiguous part.\<close>

fun str_contains :: "string \<Rightarrow> string \<Rightarrow> bool" where
  "str_contains needle [] = (needle = [])"
| "str_contains needle (c # cs) =
     (take (length needle) (c # cs) = needle \<or> str_contains needle cs)"

text \<open>
  \<^verbatim>\<open>key in data\<close>: a key of a dict, an element of a list, a part of a string; a
  TypeError on the other types.
\<close>

fun contains :: "string \<Rightarrow> 'f json \<Rightarrow> exception + bool" where
  "contains key (JDict kvs) = Inr (list_ex (\<lambda>kv. fst kv = key) kvs)"
| "contains key (JList xs) = Inr (list_ex (\<lambda>x. x = JStr key) xs)"
| "contains key (JStr s) = Inr (str_contains key s)"
| "contains key v =
     Inl (Exception (''argument of type '' @ [CHR 0x27] @ type_name v @ [CHR 0x27] @ '' is not iterable''))"

text \<open>\<^verbatim>\<open>data[key]\<close> with a string key.\<close>

fun getitem :: "'f json \<Rightarrow> string \<Rightarrow> exception + 'f json" where
  "getitem (JDict kvs) key =
     (case map_of kvs key of
        None \<Rightarrow> Inl (Exception ([CHR 0x27] @ key @ [CHR 0x27]))
      | Some v \<Rightarrow> Inr v)"
| "getitem (JList xs) key = Inl (Exception ''list indices must be integers or slices, not str'')"
| "getitem (JStr s) key = Inl (Exception ''string indices must be integers'')"
| "getitem v key =
     Inl (Exception ([CHR 0x27] @ type_name v @ [CHR 0x27] @ '' object is not subscriptable''))"

text \<open>\<^verbatim>\<open>isinstance(inputs, str)\<close>.\<close>

fun isinstance_str :: "'f json \<Rightarrow> bool" where
  "isinstance_str (JStr s) = True"
| "isinstance_str v = False"

subsection \<open>numpy's operations on arrays\<close>

text \<open>\<^verbatim>\<open>a.tolist()\<close>: a float for a 0-dimensional value, nested lists otherwise.\<close>

fun tolist :: "'f ndarray \<Rightarrow> 'f json" where
  "tolist (Scalar x) = JFloat x"
| "tolist (Array xs) = JList (map tolist xs)"

text \<open>\<^verbatim>\<open>a[0]\<close>.\<close>

fun getitem0 :: "'f ndarray \<Rightarrow> exception + 'f ndarray" where
  "getitem0 (Array (x # xs)) = Inr x"
| "getitem0 (Array []) = Inl (Exception ''index 0 is out of bounds for axis 0 with size 0'')"
| "getitem0 (Scalar x) =
     Inl (Exception ''too many indices for array: array is 0-dimensional, but 1 were indexed'')"

text \<open>\<^verbatim>\<open>for emb in a\<close>: the items along the first axis.\<close>

fun iterate :: "'f ndarray \<Rightarrow> exception + 'f ndarray list" where
  "iterate (Array xs) = Inr xs"
| "iterate (Scalar x) = Inl (Exception ''iteration over a 0-d array'')"

text \<open>
  The two-dimensional array whose rows are the given vectors: the shape
  \<^verbatim>\<open>encode\<close> is documented to return for a list of texts.
\<close>

definition matrix :: "'f list list \<Rightarrow> 'f ndarray" where
  "matrix rows = Array (map (\<lambda>row. Array (map Scalar row)) rows)"

subsection \<open>Flask's response construction\<close>

text \<open>\<^verbatim>\<open>jsonify(v)\<close> is a response with status 200; \<^verbatim>\<open>return r, c\<close> sets the status.\<close>

definition jsonify :: "'f json \<Rightarrow> 'f response" where
  "jsonify v = \<lparr>status = 200, body = v\<rparr>"

definition with_status :: "'f response \<Rightarrow> nat \<Rightarrow> 'f response" where
  "with_status r c = r\<lparr>status := c\<rparr>"

subsection \<open>Startup\<close>

text \<open>\<^verbatim>\<open>os.getenv(key, default)\<close> on the environment as a map.\<close>

definition getenv :: "(string \<rightharpoonup> string) \<Rightarrow> string \<Rightarrow> string \<Rightarrow> string" where
  "getenv env key dflt = (case env key of None \<Rightarrow> dflt | Some v \<Rightarrow> v)"

text \<open>
  Lines 11 to 13: the identifier is read from the environment and the model is
  loaded. An exception of the constructor ends the import of the module: no
  state, no server.
\<close>

definition startup :: "('f, 'm) library \<Rightarrow> (string \<rightharpoonup> string) \<Rightarrow> exception + 'm server_state" where
  "startup lib env =
     (let name = getenv env ''MODEL_ID'' ''sentence-transformers/all-MiniLM-L6-v2''
      in case SentenceTransformer lib name of
           Inl e \<Rightarrow> Inl e
         | Inr m \<Rightarrow> Inr \<lparr>model_name = name, model = m\<rparr>)"

subsection \<open>The handlers\<close>

text \<open>Lines 35 to 41: the result is shaped after the type of \<^verbatim>\<open>inputs\<close>.\<close>

definition shape_output :: "'f json \<Rightarrow> 'f ndarray \<Rightarrow> exception + 'f response" where
  "shape_output inputs embeddings =
     (if isinstance_str inputs then
        (case getitem0 embeddings of
           Inl e \<Rightarrow> Inl e
         | Inr emb \<Rightarrow> Inr (jsonify (tolist emb)))
      else
        (case iterate embeddings of
           Inl e \<Rightarrow> Inl e
         | Inr embs \<Rightarrow> Inr (jsonify (JList (map tolist embs)))))"

text \<open>
  Lines 19 to 41, the body of the \<^verbatim>\<open>try\<close>: the response it returns or the
  exception it raises, and the model object as the call of \<^verbatim>\<open>encode\<close> (if it
  is reached) leaves it. \<^verbatim>\<open>not data or 'inputs' not in data\<close> evaluates its
  second operand only when \<^verbatim>\<open>data\<close> is true.
\<close>

definition embed_try ::
  "('f::zero, 'm) library \<Rightarrow> 'm \<Rightarrow> exception + 'f json \<Rightarrow> (exception + 'f response) \<times> 'm" where
  "embed_try lib m get_json =
     (case get_json of
        Inl e \<Rightarrow> (Inl e, m)
      | Inr data \<Rightarrow>
          if \<not> truthy data then
            (Inr (with_status (jsonify (JDict [(''error'', JStr ''Missing inputs field'')])) 400), m)
          else
            (case contains ''inputs'' data of
               Inl e \<Rightarrow> (Inl e, m)
             | Inr found \<Rightarrow>
                 if \<not> found then
                   (Inr (with_status (jsonify (JDict [(''error'', JStr ''Missing inputs field'')])) 400), m)
                 else
                   (case getitem data ''inputs'' of
                      Inl e \<Rightarrow> (Inl e, m)
                    | Inr inputs \<Rightarrow>
                        let texts = (if isinstance_str inputs then JList [inputs] else inputs)
                        in (case encode lib m texts of
                              (Inl e, m') \<Rightarrow> (Inl e, m')
                            | (Inr embeddings, m') \<Rightarrow> (shape_output inputs embeddings, m')))))"

text \<open>
  Lines 17 to 45: \<^verbatim>\<open>except Exception as e\<close> turns whatever the body raised into
  a response with status 500. The handler assigns to no module-level variable;
  the model object is the one \<^verbatim>\<open>encode\<close> left.
\<close>

definition embed ::
  "('f::zero, 'm) library \<Rightarrow> 'm server_state \<Rightarrow> exception + 'f json \<Rightarrow> 'f response \<times> 'm server_state" where
  "embed lib s get_json =
     (case embed_try lib (model s) get_json of
        (Inr r, m') \<Rightarrow> (r, s\<lparr>model := m'\<rparr>)
      | (Inl e, m') \<Rightarrow>
          (with_status (jsonify (JDict [(''error'', JStr (str e))])) 500, s\<lparr>model := m'\<rparr>))"

text \<open>Lines 47 to 49.\<close>

definition health :: "'m server_state \<Rightarrow> 'f response" where
  "health s = jsonify (JDict [(''status'', JStr ''ok''), (''model'', JStr (model_name s))])"

text \<open>Flask's dispatch to the two routes, and the server handling requests in turn.\<close>

fun handle ::
  "('f::zero, 'm) library \<Rightarrow> 'm server_state \<Rightarrow> 'f request \<Rightarrow> 'f response \<times> 'm server_state" where
  "handle lib s (PostEmbed get_json) = embed lib s get_json"
| "handle lib s GetHealth = (health s, s)"

fun serve ::
  "('f::zero, 'm) library \<Rightarrow> 'm server_state \<Rightarrow> 'f request list \<Rightarrow> 'f response list \<times> 'm server_state" where
  "serve lib s [] = ([], s)"
| "serve lib s (r # rs) =
     (let (out, s') = handle lib s r; (outs, s'') = serve lib s' rs in (out # outs, s''))"

subsection \<open>A stub library for concrete instances\<close>

text \<open>
  A stand-in for sentence-transformers with two-dimensional embeddings over the
  integers: the length of the text and the number of its letters \<open>a\<close>. Like the
  real \<^verbatim>\<open>encode\<close> it takes a list of strings to one row per string, in order,
  raises on anything else, and leaves the model object (here the unit value) as
  it is. Its constructor refuses the empty name.
\<close>

definition stub_embedding :: "string \<Rightarrow> int list" where
  "stub_embedding t = [int (length t), int (length (filter (\<lambda>c. c = CHR ''a'') t))]"

fun stub_text :: "int json \<Rightarrow> string" where
  "stub_text (JStr t) = t"
| "stub_text v = []"

fun stub_encode :: "int json \<Rightarrow> exception + int ndarray" where
  "stub_encode (JList xs) =
     (if list_all isinstance_str xs then Inr (matrix (map (\<lambda>x. stub_embedding (stub_text x)) xs))
      else Inl (Exception ''text input must be of type str''))"
| "stub_encode v = Inl (Exception ''text input must be of type str'')"

definition stub_library :: "(int, unit) library" where
  "stub_library =
     \<lparr>SentenceTransformer = (\<lambda>name. if name = [] then Inl (Exception ''no model name'') else Inr ()),
      encode = (\<lambda>m texts. (stub_encode texts, m))\<rparr>"

definition stub_state :: "unit server_state" where
  "stub_state = \<lparr>model_name = ''stub-model'', model = ()\<rparr>"

section \<open>Properties\<close>

subsection \<open>Auxiliary facts\<close>

lemma map_of_Some_list_ex: "map_of kvs k = Some v \<Longrightarrow> list_ex (\<lambda>kv. fst kv = k) kvs"
  by (induction kvs) (auto split: if_splits)

lemma map_of_Some_nonempty: "map_of kvs k = Some v \<Longrightarrow> kvs \<noteq> []"
  by auto

lemma list_ex_fst_iff: "list_ex (\<lambda>kv. fst kv = k) kvs \<longleftrightarrow> k \<in> fst ` set kvs"
  by (auto simp: list_ex_iff)

text \<open>
  A dict that binds \<open>inputs\<close> passes both checks of line 21, and the body of the
  \<^verbatim>\<open>try\<close> is the call of \<^verbatim>\<open>encode\<close> and the shaping of its result.
\<close>

lemma embed_try_inputs:
  assumes "map_of kvs ''inputs'' = Some v"
  shows "embed_try lib m (Inr (JDict kvs)) =
     (case encode lib m (if isinstance_str v then JList [v] else v) of
        (Inl e, m') \<Rightarrow> (Inl e, m')
      | (Inr embeddings, m') \<Rightarrow> (shape_output v embeddings, m'))"
  using assms map_of_Some_list_ex[OF assms] map_of_Some_nonempty[OF assms]
  by (simp add: embed_try_def)

lemma embed_inputs_present:
  assumes "map_of kvs ''inputs'' = Some v"
  shows "embed lib s (Inr (JDict kvs)) =
     (case encode lib (model s) (if isinstance_str v then JList [v] else v) of
        (Inl e, m') \<Rightarrow> (\<lparr>status = 500, body = JDict [(''error'', JStr (str e))]\<rparr>, s\<lparr>model := m'\<rparr>)
      | (Inr embeddings, m') \<Rightarrow>
          (case shape_output v embeddings of
             Inl e \<Rightarrow> (\<lparr>status = 500, body = JDict [(''error'', JStr (str e))]\<rparr>, s\<lparr>model := m'\<rparr>)
           | Inr r \<Rightarrow> (r, s\<lparr>model := m'\<rparr>)))"
  by (simp add: embed_def embed_try_inputs[OF assms] jsonify_def with_status_def
      split: prod.splits sum.splits)

lemma shape_output_status: "shape_output v a = Inr r \<Longrightarrow> status r = 200"
  by (auto simp: shape_output_def jsonify_def split: if_splits sum.splits)

lemma embed_inputs_present_not_400:
  assumes "map_of kvs ''inputs'' = Some v"
  shows "status (fst (embed lib s (Inr (JDict kvs)))) \<noteq> 400"
  by (auto simp: embed_inputs_present[OF assms] split: prod.splits sum.splits
      dest: shape_output_status)

text \<open>The two ways into the response of line 22.\<close>

lemma embed_try_falsy:
  "\<not> truthy data \<Longrightarrow> embed_try lib m (Inr data) =
     (Inr \<lparr>status = 400, body = JDict [(''error'', JStr ''Missing inputs field'')]\<rparr>, m)"
  by (simp add: embed_try_def jsonify_def with_status_def)

lemma embed_try_not_found:
  "contains ''inputs'' data = Inr False \<Longrightarrow> embed_try lib m (Inr data) =
     (Inr \<lparr>status = 400, body = JDict [(''error'', JStr ''Missing inputs field'')]\<rparr>, m)"
  by (simp add: embed_try_def jsonify_def with_status_def)

text \<open>
  Where the body of the \<^verbatim>\<open>try\<close> raises: in \<^verbatim>\<open>get_json\<close>, in the membership test
  on a value that is \<^verbatim>\<open>True\<close> or a number other than zero, in the subscript of a
  list or string that holds \<open>inputs\<close>, and in \<^verbatim>\<open>encode\<close>.
\<close>

lemma embed_try_parse_raises: "embed_try lib m (Inl e) = (Inl e, m)"
  by (simp add: embed_try_def)

lemma embed_try_membership_raises:
  assumes "data = JBool True \<or> (\<exists>n. data = JInt n \<and> n \<noteq> 0) \<or> (\<exists>x. data = JFloat x \<and> x \<noteq> 0)"
  shows "\<exists>e. embed_try lib m (Inr data) = (Inl e, m)"
  using assms by (auto simp: embed_try_def)

lemma embed_try_subscript_raises:
  assumes "data = JList xs \<and> JStr ''inputs'' \<in> set xs \<or> data = JStr t \<and> str_contains ''inputs'' t"
  shows "\<exists>e. embed_try lib m (Inr data) = (Inl e, m)"
  using assms by (auto simp: embed_try_def list_ex_iff)

lemma embed_try_encode_raises:
  assumes "map_of kvs ''inputs'' = Some v"
      and "encode lib m (if isinstance_str v then JList [v] else v) = (Inl e, m')"
  shows "embed_try lib m (Inr (JDict kvs)) = (Inl e, m')"
  using assms(2) by (simp add: embed_try_inputs[OF assms(1)])

text \<open>No handler touches \<^verbatim>\<open>model_name\<close>, whatever the library does.\<close>

lemma embed_model_name: "model_name (snd (embed lib s g)) = model_name s"
  by (simp add: embed_def split: prod.splits sum.splits)

lemma handle_model_name: "model_name (snd (handle lib s r)) = model_name s"
  by (cases r) (simp_all add: embed_model_name)

lemma serve_model_name: "model_name (snd (serve lib s rs)) = model_name s"
  by (induction rs arbitrary: s) (simp_all add: split_beta handle_model_name)

text \<open>
  With a library whose \<^verbatim>\<open>encode\<close> leaves the model object as it found it, the
  whole state survives every request.
\<close>

lemma embed_try_readonly:
  assumes "\<forall>m texts. snd (encode lib m texts) = m"
  shows "snd (embed_try lib m g) = m"
proof -
  have "\<And>texts r m'. encode lib m texts = (r, m') \<Longrightarrow> m' = m"
    using assms by (metis snd_conv)
  then show ?thesis
    by (auto simp: embed_try_def Let_def split: sum.splits prod.splits)
qed

lemma embed_readonly:
  assumes "\<forall>m texts. snd (encode lib m texts) = m"
  shows "snd (embed lib s g) = s"
  using embed_try_readonly[OF assms, of "model s" g]
  by (auto simp: embed_def split: prod.splits sum.splits)

lemma handle_readonly:
  assumes "\<forall>m texts. snd (encode lib m texts) = m"
  shows "snd (handle lib s r) = s"
  by (cases r) (simp_all add: embed_readonly[OF assms])

lemma serve_readonly:
  assumes "\<forall>m texts. snd (encode lib m texts) = m"
  shows "snd (serve lib s rs) = s"
  by (induction rs arbitrary: s) (simp_all add: split_beta handle_readonly[OF assms])

lemma stub_encode_readonly: "\<forall>m texts. snd (encode stub_library m texts) = m"
  by (simp add: stub_library_def)

subsection \<open>The response to a single string\<close>

text \<open>
  C1. A request whose JSON body binds \<open>inputs\<close> to a single string \<open>t\<close> is
  answered with status 200 and the embedding vector of \<open>t\<close> as a flat list of
  numbers, with no list around it. The vector of \<open>t\<close> is the one row that the
  library's \<^verbatim>\<open>encode\<close> returns for the one-element list \<open>[t]\<close>.
\<close>

theorem embed_single_string:
  assumes "map_of kvs ''inputs'' = Some (JStr t)"
      and "encode lib (model s) (JList [JStr t]) = (Inr (matrix [v]), m')"
  shows "fst (embed lib s (Inr (JDict kvs))) = \<lparr>status = 200, body = JList (map JFloat v)\<rparr>"
  using assms(2)
  by (simp add: embed_def embed_try_inputs[OF assms(1)] shape_output_def matrix_def jsonify_def comp_def)

theorem embed_single_string_witness:
  "map_of [(''inputs'', JStr ''banana'')] ''inputs'' = Some (JStr ''banana'' :: int json) \<and>
   encode stub_library (model stub_state) (JList [JStr ''banana'']) = (Inr (matrix [[6, 3]]), ()) \<and>
   fst (embed stub_library stub_state (Inr (JDict [(''inputs'', JStr ''banana'')]))) =
     \<lparr>status = 200, body = JList [JFloat 6, JFloat 3]\<rparr>"
  using embed_single_string[of "[(''inputs'', JStr ''banana'')]" "''banana''" stub_library stub_state "[6, 3]" "()"]
  by (simp add: stub_library_def stub_state_def stub_embedding_def matrix_def)

subsection \<open>The response to a list of strings\<close>

text \<open>
  C2. A request whose JSON body binds \<open>inputs\<close> to a list of N strings is
  answered with status 200 and a list of exactly N vectors in the order of the
  inputs: the i-th vector is the embedding of the i-th text, for every i below
  N. The library's \<^verbatim>\<open>encode\<close> is taken to return, for this list, one row per
  text in order, the row of a text \<open>t\<close> being \<open>emb t\<close>.
\<close>

theorem embed_batch:
  assumes "map_of kvs ''inputs'' = Some (JList (map JStr ts))"
      and "encode lib (model s) (JList (map JStr ts)) = (Inr (matrix (map emb ts)), m')"
  shows "\<exists>bs. fst (embed lib s (Inr (JDict kvs))) = \<lparr>status = 200, body = JList bs\<rparr> \<and>
           length bs = length ts \<and>
           (\<forall>i<length ts. bs ! i = JList (map JFloat (emb (ts ! i))))"
proof -
  let ?bs = "map (\<lambda>t. JList (map JFloat (emb t))) ts"
  have "fst (embed lib s (Inr (JDict kvs))) = \<lparr>status = 200, body = JList ?bs\<rparr>"
    using assms(2)
    by (simp add: embed_def embed_try_inputs[OF assms(1)] shape_output_def matrix_def
        jsonify_def comp_def)
  moreover have "length ?bs = length ts" by simp
  moreover have "\<forall>i<length ts. ?bs ! i = JList (map JFloat (emb (ts ! i)))" by simp
  ultimately show ?thesis by blast
qed

theorem embed_batch_witness:
  "map_of [(''inputs'', JList (map JStr [''banana'', ''b'']))] ''inputs'' =
     Some (JList (map JStr [''banana'', ''b'']) :: int json) \<and>
   encode stub_library (model stub_state) (JList (map JStr [''banana'', ''b''])) =
     (Inr (matrix (map stub_embedding [''banana'', ''b''])), ()) \<and>
   (\<exists>bs. fst (embed stub_library stub_state (Inr (JDict [(''inputs'', JList (map JStr [''banana'', ''b'']))]))) =
           \<lparr>status = 200, body = JList bs\<rparr> \<and>
         length bs = length [''banana'', ''b''] \<and>
         (\<forall>i<length [''banana'', ''b'']. bs ! i = JList (map JFloat (stub_embedding ([''banana'', ''b''] ! i)))))"
proof -
  have e: "encode stub_library (model stub_state) (JList (map JStr [''banana'', ''b''])) =
     (Inr (matrix (map stub_embedding [''banana'', ''b''])), ())"
    by (simp add: stub_library_def stub_state_def)
  have k: "map_of [(''inputs'', JList (map JStr [''banana'', ''b'']))] ''inputs'' =
     Some (JList (map JStr [''banana'', ''b'']) :: int json)"
    by simp
  show ?thesis using embed_batch[OF k, of stub_library stub_state stub_embedding "()", OF e] e k by blast
qed

subsection \<open>No \<open>inputs\<close> in the body\<close>

text \<open>
  On a JSON object without the key \<open>inputs\<close>, the empty object among them, the
  handler gives the response of line 22 and leaves the state as it was.
\<close>

lemma embed_object_without_inputs:
  assumes "''inputs'' \<notin> fst ` set kvs"
  shows "embed lib s (Inr (JDict kvs)) =
           (\<lparr>status = 400, body = JDict [(''error'', JStr ''Missing inputs field'')]\<rparr>, s)"
proof -
  have "contains ''inputs'' (JDict kvs) = Inr False"
    using assms by (simp add: list_ex_fst_iff)
  then show ?thesis by (simp add: embed_def embed_try_not_found)
qed

text \<open>
  C3. A body that parses as JSON and does not contain the key \<open>inputs\<close> is to
  be answered with status 400 and \<^verbatim>\<open>{"error": "Missing inputs field"}\<close>. The
  handler misses this at the body \<^verbatim>\<open>42\<close>: the value is true, so line 21 goes on
  to \<^verbatim>\<open>'inputs' not in 42\<close>, the presence test itself raises a TypeError, and
  line 45 answers with status 500. The bodies \<^verbatim>\<open>0\<close> and \<^verbatim>\<open>{}\<close>, which do not
  contain the key either, get the response the claim states.
\<close>

theorem embed_body_42_answered_500:
  "status (fst (embed lib s (Inr (JInt 42)))) = 500 \<and>
   fst (embed lib s (Inr (JInt 42))) \<noteq>
     \<lparr>status = 400, body = JDict [(''error'', JStr ''Missing inputs field'')]\<rparr> \<and>
   fst (embed lib s (Inr (JInt 0))) =
     \<lparr>status = 400, body = JDict [(''error'', JStr ''Missing inputs field'')]\<rparr> \<and>
   fst (embed lib s (Inr (JDict []))) =
     \<lparr>status = 400, body = JDict [(''error'', JStr ''Missing inputs field'')]\<rparr>"
  by (simp add: embed_def embed_try_def jsonify_def with_status_def)

subsection \<open>A body that is not JSON\<close>

text \<open>
  C4. A body that is empty or does not parse as JSON is to be answered with a
  status of the 400 class. For such a body Flask's \<^verbatim>\<open>get_json\<close> raises
  werkzeug's BadRequest (itself a 400 response) when the content type is JSON.
  The call stands inside the \<^verbatim>\<open>try\<close>, so \<^verbatim>\<open>except Exception\<close> catches the
  exception and line 45 answers with status 500. When \<^verbatim>\<open>get_json\<close> returns
  \<^verbatim>\<open>None\<close> instead, line 22 answers with status 400.
\<close>

theorem embed_unparsed_body_answered_500:
  "status (fst (embed lib s
      (Inl (Exception ''400 Bad Request: Failed to decode JSON object'')))) = 500 \<and>
   body (fst (embed lib s
      (Inl (Exception ''400 Bad Request: Failed to decode JSON object'')))) =
     JDict [(''error'', JStr ''400 Bad Request: Failed to decode JSON object'')] \<and>
   fst (embed lib s (Inr JNull)) =
     \<lparr>status = 400, body = JDict [(''error'', JStr ''Missing inputs field'')]\<rparr>"
  by (simp add: embed_def embed_try_def jsonify_def with_status_def)

subsection \<open>Exceptions\<close>

text \<open>
  C5. Whatever exception \<open>e\<close> the body of the \<^verbatim>\<open>try\<close> raises (in parsing, in the
  checks, in \<^verbatim>\<open>encode\<close> or in shaping its result), the handler returns the
  response with status 500 and the body \<^verbatim>\<open>{"error": str(e)}\<close>: an object, with
  no part of a batch in it. The server then handles the requests that follow.
\<close>

theorem embed_exception_500:
  assumes "embed_try lib (model s) get_json = (Inl e, m')"
  shows "embed lib s get_json =
           (\<lparr>status = 500, body = JDict [(''error'', JStr (str e))]\<rparr>, s\<lparr>model := m'\<rparr>) \<and>
         fst (serve lib s (PostEmbed get_json # rs)) =
           \<lparr>status = 500, body = JDict [(''error'', JStr (str e))]\<rparr> #
           fst (serve lib (s\<lparr>model := m'\<rparr>) rs)"
proof -
  have "embed lib s get_json =
      (\<lparr>status = 500, body = JDict [(''error'', JStr (str e))]\<rparr>, s\<lparr>model := m'\<rparr>)"
    using assms by (simp add: embed_def jsonify_def with_status_def)
  then show ?thesis by (simp add: split_beta)
qed

theorem embed_exception_500_witness:
  "embed_try stub_library (model stub_state) (Inr (JDict [(''inputs'', JList [JStr ''banana'', JInt 3])])) =
     (Inl (Exception ''text input must be of type str''), ()) \<and>
   embed stub_library stub_state (Inr (JDict [(''inputs'', JList [JStr ''banana'', JInt 3])])) =
     (\<lparr>status = 500, body = JDict [(''error'', JStr ''text input must be of type str'')]\<rparr>, stub_state) \<and>
   fst (serve stub_library stub_state
         [PostEmbed (Inr (JDict [(''inputs'', JList [JStr ''banana'', JInt 3])])), GetHealth]) =
     [\<lparr>status = 500, body = JDict [(''error'', JStr ''text input must be of type str'')]\<rparr>,
      \<lparr>status = 200, body = JDict [(''status'', JStr ''ok''), (''model'', JStr ''stub-model'')]\<rparr>]"
proof -
  have t: "embed_try stub_library (model stub_state)
      (Inr (JDict [(''inputs'', JList [JStr ''banana'', JInt 3])])) =
     (Inl (Exception ''text input must be of type str''), ())"
    by (simp add: embed_try_def stub_library_def stub_state_def)
  have u: "stub_state\<lparr>model := ()\<rparr> = stub_state" by simp
  show ?thesis
    using embed_exception_500[OF t, of "[GetHealth]"] t
    by (simp add: u health_def jsonify_def) (simp add: stub_state_def)
qed

subsection \<open>An \<open>inputs\<close> value that is not text\<close>

text \<open>
  C6, as the program has it. The handler does not validate \<open>inputs\<close>. A value
  that is not a string is handed to \<^verbatim>\<open>encode\<close> as it is; the response has
  status 500 and the exception's text when \<^verbatim>\<open>encode\<close>, or iterating its
  result, raises, and status 200 with the converted result otherwise. It never
  has status 400.
\<close>

theorem embed_unvalidated_inputs:
  assumes "map_of kvs ''inputs'' = Some v" and "\<not> isinstance_str v"
  shows "status (fst (embed lib s (Inr (JDict kvs)))) \<noteq> 400 \<and>
         embed lib s (Inr (JDict kvs)) =
           (case encode lib (model s) v of
              (Inl e, m') \<Rightarrow>
                (\<lparr>status = 500, body = JDict [(''error'', JStr (str e))]\<rparr>, s\<lparr>model := m'\<rparr>)
            | (Inr embeddings, m') \<Rightarrow>
                (case iterate embeddings of
                   Inl e \<Rightarrow>
                     (\<lparr>status = 500, body = JDict [(''error'', JStr (str e))]\<rparr>, s\<lparr>model := m'\<rparr>)
                 | Inr embs \<Rightarrow>
                     (\<lparr>status = 200, body = JList (map tolist embs)\<rparr>, s\<lparr>model := m'\<rparr>)))"
  using assms(2) embed_inputs_present_not_400[OF assms(1)]
  by (simp add: embed_inputs_present[OF assms(1)] shape_output_def jsonify_def
      split: prod.splits sum.splits)

theorem embed_unvalidated_inputs_witness:
  "map_of [(''inputs'', JInt 42)] ''inputs'' = Some (JInt 42 :: int json) \<and>
   \<not> isinstance_str (JInt 42 :: int json) \<and>
   embed stub_library stub_state (Inr (JDict [(''inputs'', JInt 42)])) =
     (\<lparr>status = 500, body = JDict [(''error'', JStr ''text input must be of type str'')]\<rparr>, stub_state)"
  using embed_unvalidated_inputs[of "[(''inputs'', JInt 42)]" "JInt 42" stub_library stub_state]
  by (simp add: stub_library_def)

text \<open>
  The bodies \<^verbatim>\<open>{"inputs": 42}\<close> and \<^verbatim>\<open>{"inputs": ["banana", null]}\<close> reach
  \<^verbatim>\<open>encode\<close>, which raises on them: status 500, not 400.
\<close>

theorem embed_unvalidated_inputs_counterexample:
  "status (fst (embed stub_library stub_state (Inr (JDict [(''inputs'', JInt 42)])))) = 500 \<and>
   status (fst (embed stub_library stub_state
      (Inr (JDict [(''inputs'', JList [JStr ''banana'', JNull])])))) = 500"
  by (simp add: embed_def embed_try_def jsonify_def with_status_def stub_library_def stub_state_def)

subsection \<open>The health route\<close>

text \<open>
  C7. After a startup that succeeded, and after any sequence of requests served
  since, \<^verbatim>\<open>GET /health\<close> is answered with exactly
  \<^verbatim>\<open>{"status": "ok", "model": m}\<close>, where \<open>m\<close> is the identifier read at
  startup: the value of \<^verbatim>\<open>MODEL_ID\<close> in the environment, or the default name
  when the variable is not set.
\<close>

theorem health_after_any_history:
  assumes "startup lib env = Inr s0"
  shows "fst (handle lib (snd (serve lib s0 rs)) GetHealth) =
           \<lparr>status = 200,
            body = JDict [(''status'', JStr ''ok''),
                          (''model'', JStr (getenv env ''MODEL_ID'' ''sentence-transformers/all-MiniLM-L6-v2''))]\<rparr>"
proof -
  have "model_name s0 = getenv env ''MODEL_ID'' ''sentence-transformers/all-MiniLM-L6-v2''"
    using assms by (auto simp: startup_def Let_def split: sum.splits)
  then show ?thesis
    by (simp add: health_def jsonify_def serve_model_name)
qed

theorem health_after_any_history_witness:
  "startup stub_library [''MODEL_ID'' \<mapsto> ''my-model''] = Inr \<lparr>model_name = ''my-model'', model = ()\<rparr> \<and>
   fst (handle stub_library
         (snd (serve stub_library \<lparr>model_name = ''my-model'', model = ()\<rparr>
                 [PostEmbed (Inr (JDict [(''inputs'', JStr ''banana'')])),
                  PostEmbed (Inl (Exception ''400 Bad Request'')), GetHealth]))
         GetHealth) =
     \<lparr>status = 200, body = JDict [(''status'', JStr ''ok''), (''model'', JStr ''my-model'')]\<rparr> \<and>
   startup stub_library Map.empty =
     Inr \<lparr>model_name = ''sentence-transformers/all-MiniLM-L6-v2'', model = ()\<rparr> \<and>
   fst (handle stub_library
         (snd (serve stub_library \<lparr>model_name = ''sentence-transformers/all-MiniLM-L6-v2'', model = ()\<rparr>
                 [PostEmbed (Inr (JDict []))]))
         GetHealth) =
     \<lparr>status = 200,
      body = JDict [(''status'', JStr ''ok''), (''model'', JStr ''sentence-transformers/all-MiniLM-L6-v2'')]\<rparr>"
proof -
  have a: "startup stub_library [''MODEL_ID'' \<mapsto> ''my-model''] = Inr \<lparr>model_name = ''my-model'', model = ()\<rparr>"
    by (simp add: startup_def getenv_def stub_library_def)
  have b: "startup stub_library Map.empty =
     Inr \<lparr>model_name = ''sentence-transformers/all-MiniLM-L6-v2'', model = ()\<rparr>"
    by (simp add: startup_def getenv_def stub_library_def)
  have g1: "getenv [''MODEL_ID'' \<mapsto> ''my-model''] ''MODEL_ID'' ''sentence-transformers/all-MiniLM-L6-v2'' = ''my-model''"
    by (simp add: getenv_def)
  have g2: "getenv Map.empty ''MODEL_ID'' ''sentence-transformers/all-MiniLM-L6-v2'' =
      ''sentence-transformers/all-MiniLM-L6-v2''"
    by (simp add: getenv_def)
  show ?thesis
    using health_after_any_history[OF a, unfolded g1] health_after_any_history[OF b, unfolded g2] a b
    by blast
qed

subsection \<open>The state of the process\<close>

text \<open>
  C8. The state that lives as long as the process is the pair of \<^verbatim>\<open>model_name\<close>
  and \<^verbatim>\<open>model\<close>, set once by the startup. No request, to either route and
  whatever its outcome, changes \<^verbatim>\<open>model_name\<close>; and when the library's
  \<^verbatim>\<open>encode\<close> leaves the model object as it found it, a request and any
  sequence of requests leave the whole state unchanged.
\<close>

theorem no_request_mutates_state:
  "model_name (snd (handle lib s r)) = model_name s \<and>
   ((\<forall>m texts. snd (encode lib m texts) = m) \<longrightarrow>
      snd (handle lib s r) = s \<and> snd (serve lib s rs) = s)"
  using handle_model_name[of lib s r] handle_readonly[of lib s r] serve_readonly[of lib s rs]
  by blast

theorem no_request_mutates_state_witness:
  "(\<forall>m texts. snd (encode stub_library m texts) = m) \<and>
   snd (handle stub_library stub_state (PostEmbed (Inr (JDict [(''inputs'', JStr ''banana'')])))) = stub_state \<and>
   snd (serve stub_library stub_state
         [PostEmbed (Inr (JDict [(''inputs'', JList [JInt 3])])), GetHealth, PostEmbed (Inl (Exception ''bad''))]) =
     stub_state"
  using no_request_mutates_state[of stub_library stub_state
      "PostEmbed (Inr (JDict [(''inputs'', JStr ''banana'')]))"
      "[PostEmbed (Inr (JDict [(''inputs'', JList [JInt 3])])), GetHealth, PostEmbed (Inl (Exception ''bad''))]"]
    stub_encode_readonly
  by blast

subsection \<open>The same text in separate requests\<close>

text \<open>
  C9. Two separate \<^verbatim>\<open>/embed\<close> requests that carry the same text \<open>t\<close> yield the
  identical embedding vector: each is answered with status 200 and the vector
  \<open>v\<close> that the loaded model gives for \<open>t\<close>, whatever requests were served
  before each of them and whatever else their bodies hold. The library's
  \<^verbatim>\<open>encode\<close> is a function of the model object and the texts, and is taken to
  leave the model object as it found it.
\<close>

theorem same_text_same_vector:
  assumes "\<forall>m texts. snd (encode lib m texts) = m"
      and "map_of kvs1 ''inputs'' = Some (JStr t)" and "map_of kvs2 ''inputs'' = Some (JStr t)"
      and "fst (encode lib (model s0) (JList [JStr t])) = Inr (matrix [v])"
  shows "fst (handle lib (snd (serve lib s0 rs1)) (PostEmbed (Inr (JDict kvs1)))) =
           \<lparr>status = 200, body = JList (map JFloat v)\<rparr> \<and>
         fst (handle lib (snd (serve lib s0 rs2)) (PostEmbed (Inr (JDict kvs2)))) =
           \<lparr>status = 200, body = JList (map JFloat v)\<rparr>"
proof -
  obtain m' where e: "encode lib (model s0) (JList [JStr t]) = (Inr (matrix [v]), m')"
    using assms(4) by (cases "encode lib (model s0) (JList [JStr t])") simp
  have shaped: "shape_output (JStr t) (matrix [v]) = Inr \<lparr>status = 200, body = JList (map JFloat v)\<rparr>"
    by (simp add: shape_output_def matrix_def jsonify_def comp_def)
  have one: "fst (embed lib s0 (Inr (JDict kvs))) = \<lparr>status = 200, body = JList (map JFloat v)\<rparr>"
    if "map_of kvs ''inputs'' = Some (JStr t)" for kvs
    using e shaped by (simp add: embed_inputs_present[OF that])
  show ?thesis
    by (simp add: serve_readonly[OF assms(1)] one[OF assms(2)] one[OF assms(3)])
qed

theorem same_text_same_vector_witness:
  "(\<forall>m texts. snd (encode stub_library m texts) = m) \<and>
   map_of [(''inputs'', JStr ''banana'')] ''inputs'' = Some (JStr ''banana'' :: int json) \<and>
   map_of [(''id'', JInt 7), (''inputs'', JStr ''banana'')] ''inputs'' = Some (JStr ''banana'' :: int json) \<and>
   fst (encode stub_library (model stub_state) (JList [JStr ''banana''])) = Inr (matrix [[6, 3]]) \<and>
   fst (handle stub_library (snd (serve stub_library stub_state []))
         (PostEmbed (Inr (JDict [(''inputs'', JStr ''banana'')])))) =
     \<lparr>status = 200, body = JList [JFloat 6, JFloat 3]\<rparr> \<and>
   fst (handle stub_library
         (snd (serve stub_library stub_state
                 [PostEmbed (Inr (JDict [(''inputs'', JList [JStr ''b''])])), GetHealth,
                  PostEmbed (Inl (Exception ''400 Bad Request''))]))
         (PostEmbed (Inr (JDict [(''id'', JInt 7), (''inputs'', JStr ''banana'')])))) =
     \<lparr>status = 200, body = JList [JFloat 6, JFloat 3]\<rparr>"
proof -
  have k1: "map_of [(''inputs'', JStr ''banana'')] ''inputs'' = Some (JStr ''banana'' :: int json)" by simp
  have k2: "map_of [(''id'', JInt 7), (''inputs'', JStr ''banana'')] ''inputs'' = Some (JStr ''banana'' :: int json)"
    by simp
  have e: "fst (encode stub_library (model stub_state) (JList [JStr ''banana''])) = Inr (matrix [[6, 3]])"
    by (simp add: stub_library_def stub_embedding_def)
  have m: "map JFloat [6, 3 :: int] = [JFloat 6, JFloat 3]" by simp
  show ?thesis
    using same_text_same_vector[OF stub_encode_readonly k1 k2 e, of "[]"
        "[PostEmbed (Inr (JDict [(''inputs'', JList [JStr ''b''])])), GetHealth,
          PostEmbed (Inl (Exception ''400 Bad Request''))]", unfolded m]
      stub_encode_readonly k1 k2 e
    by blast
qed

subsection \<open>The empty batch\<close>

text \<open>
  C10. A request whose body binds \<open>inputs\<close> to the empty list is not answered
  with the missing-inputs error, whatever the library does: the empty list goes
  to \<^verbatim>\<open>encode\<close>. When \<^verbatim>\<open>encode\<close> returns the array without rows for it, the
  response has status 200 and the body \<^verbatim>\<open>[]\<close>.
\<close>

theorem embed_empty_list:
  assumes "map_of kvs ''inputs'' = Some (JList [])"
  shows "fst (embed lib s (Inr (JDict kvs))) \<noteq>
           \<lparr>status = 400, body = JDict [(''error'', JStr ''Missing inputs field'')]\<rparr> \<and>
         (\<forall>m'. encode lib (model s) (JList []) = (Inr (matrix []), m') \<longrightarrow>
            fst (embed lib s (Inr (JDict kvs))) = \<lparr>status = 200, body = JList []\<rparr>)"
proof -
  have "status (fst (embed lib s (Inr (JDict kvs)))) \<noteq> 400"
    by (rule embed_inputs_present_not_400[OF assms])
  then have "fst (embed lib s (Inr (JDict kvs))) \<noteq>
      \<lparr>status = 400, body = JDict [(''error'', JStr ''Missing inputs field'')]\<rparr>"
    by auto
  moreover have "\<forall>m'. encode lib (model s) (JList []) = (Inr (matrix []), m') \<longrightarrow>
      fst (embed lib s (Inr (JDict kvs))) = \<lparr>status = 200, body = JList []\<rparr>"
    by (simp add: embed_inputs_present[OF assms] shape_output_def jsonify_def matrix_def)
  ultimately show ?thesis by blast
qed

theorem embed_empty_list_witness:
  "map_of [(''inputs'', JList [])] ''inputs'' = Some (JList [] :: int json) \<and>
   encode stub_library (model stub_state) (JList []) = (Inr (matrix []), ()) \<and>
   fst (embed stub_library stub_state (Inr (JDict [(''inputs'', JList [])]))) =
     \<lparr>status = 200, body = JList []\<rparr>"
proof -
  have k: "map_of [(''inputs'', JList [])] ''inputs'' = Some (JList [] :: int json)" by simp
  have e: "encode stub_library (model stub_state) (JList []) = (Inr (matrix []), ())"
    by (simp add: stub_library_def)
  show ?thesis using embed_empty_list[OF k, of stub_library stub_state] k e by blast
qed

end
